theory Spec2Isabelle
  imports Main "HOL-Library.AList"
begin

section \<open>Python library functions called by cluster.py\<close>

text \<open>
  Python text (\<^verbatim>\<open>str\<close>) is modelled as \<^typ>\<open>string\<close>: a \<^typ>\<open>char\<close> stands for the
  code point of the same number, so the model covers the code points 0..255. The character
  classes below are those of CPython for that range.
\<close>

definition code_point :: "char \<Rightarrow> nat" where
  "code_point c = of_char c"

definition py_isspace :: "char \<Rightarrow> bool" where
  \<comment> \<open>\<^verbatim>\<open>str.isspace\<close>, also the class \<^verbatim>\<open>\s\<close> of the \<^verbatim>\<open>re\<close> module on text\<close>
  "py_isspace c = (code_point c \<in> set [9, 10, 11, 12, 13, 28, 29, 30, 31, 32, 133, 160])"

definition is_linebreak :: "char \<Rightarrow> bool" where
  \<comment> \<open>the line boundaries of \<^verbatim>\<open>str.splitlines\<close>\<close>
  "is_linebreak c = (code_point c \<in> set [10, 11, 12, 13, 28, 29, 30, 133])"

definition is_digit :: "char \<Rightarrow> bool" where
  \<comment> \<open>decimal digits: \<^verbatim>\<open>\d\<close>, and the digits \<^verbatim>\<open>int()\<close> reads\<close>
  "is_digit c = (48 \<le> code_point c \<and> code_point c \<le> 57)"

definition digit_val :: "char \<Rightarrow> nat" where
  "digit_val c = code_point c - 48"

definition int_space :: "char \<Rightarrow> bool" where
  \<comment> \<open>the whitespace \<^verbatim>\<open>int()\<close> skips around a literal: the C class \<^verbatim>\<open>isspace\<close> for ASCII, and
      the Unicode spaces beyond ASCII (which it first turns into blanks)\<close>
  "int_space c = (code_point c \<in> set [9, 10, 11, 12, 13, 32, 133, 160])"

subsection \<open>\<^verbatim>\<open>str.splitlines()\<close>\<close>

fun splitlines_from :: "string \<Rightarrow> string \<Rightarrow> string list" where
  "splitlines_from cur [] = (if cur = [] then [] else [cur])"
| "splitlines_from cur [c] = (if is_linebreak c then [cur] else [cur @ [c]])"
| "splitlines_from cur (c # d # cs) =
     (if c = CHR 0x0D \<and> d = CHR 0x0A then cur # splitlines_from [] cs
      else if is_linebreak c then cur # splitlines_from [] (d # cs)
      else splitlines_from (cur @ [c]) (d # cs))"

declare splitlines_from.simps [simp del]

definition splitlines :: "string \<Rightarrow> string list" where
  "splitlines s = splitlines_from [] s"

subsection \<open>\<^verbatim>\<open>int(text)\<close> in base 10\<close>

text \<open>
  \<^verbatim>\<open>int\<close> skips surrounding whitespace, reads an optional sign, then digits with single
  underscores allowed between digits, and raises ValueError (here: \<open>None\<close>) on anything else.
  The interpreter's configurable limit on the number of digits is not modelled.
\<close>

fun scan_int :: "nat \<Rightarrow> char \<Rightarrow> string \<Rightarrow> (nat \<times> string) option" where
  "scan_int acc prev [] = (if prev = CHR ''_'' then None else Some (acc, []))"
| "scan_int acc prev (c # cs) =
     (if c = CHR ''_'' then (if prev = CHR ''_'' then None else scan_int acc c cs)
      else if is_digit c then scan_int (10 * acc + digit_val c) c cs
      else if prev = CHR ''_'' then None
      else Some (acc, c # cs))"

declare scan_int.simps [simp del]

definition py_int :: "string \<Rightarrow> int option" where
  "py_int s =
     (let s1 = dropWhile int_space s;
          neg = (take 1 s1 = ''-'');
          s2 = (if take 1 s1 = ''+'' \<or> take 1 s1 = ''-'' then drop 1 s1 else s1)
      in if take 1 s2 = ''_'' then None
         else case scan_int 0 (CHR 0x00) s2 of
                None \<Rightarrow> None
              | Some (v, rest) \<Rightarrow>
                  if length rest = length s2 then None
                  else if dropWhile int_space rest \<noteq> [] then None
                  else Some (if neg then - int v else int v))"

subsection \<open>\<^verbatim>\<open>os.path.join\<close> and \<^verbatim>\<open>os.path.normpath\<close> (the POSIX variant)\<close>

definition path_join :: "string \<Rightarrow> string \<Rightarrow> string" where
  "path_join a b =
     (if take 1 b = ''/'' then b
      else if a = [] \<or> last a = CHR ''/'' then a @ b
      else a @ ''/'' @ b)"

fun split_sep :: "string \<Rightarrow> string \<Rightarrow> string list" where
  \<comment> \<open>\<^verbatim>\<open>path.split('/')\<close>, with the component read so far\<close>
  "split_sep cur [] = [cur]"
| "split_sep cur (c # cs) =
     (if c = CHR ''/'' then cur # split_sep [] cs else split_sep (cur @ [c]) cs)"

declare split_sep.simps [simp del]

fun norm_comps :: "nat \<Rightarrow> string list \<Rightarrow> string list \<Rightarrow> string list" where
  "norm_comps initial_slashes new_comps [] = new_comps"
| "norm_comps initial_slashes new_comps (part # comps) =
     (if part = [] \<or> part = ''.'' then norm_comps initial_slashes new_comps comps
      else if part \<noteq> ''..'' \<or> (initial_slashes = 0 \<and> new_comps = [])
              \<or> (new_comps \<noteq> [] \<and> last new_comps = ''..'')
        then norm_comps initial_slashes (new_comps @ [part]) comps
      else if new_comps \<noteq> [] then norm_comps initial_slashes (butlast new_comps) comps
      else norm_comps initial_slashes new_comps comps)"

declare norm_comps.simps [simp del]

fun join_str :: "string \<Rightarrow> string list \<Rightarrow> string" where
  \<comment> \<open>\<^verbatim>\<open>sep.join(parts)\<close>\<close>
  "join_str sep [] = []"
| "join_str sep [x] = x"
| "join_str sep (x # y # ys) = x @ sep @ join_str sep (y # ys)"

definition normpath :: "string \<Rightarrow> string" where
  "normpath path =
     (if path = [] then ''.''
      else
        let initial_slashes =
              (if take 1 path = ''/''
               then (if take 2 path = ''//'' \<and> take 3 path \<noteq> ''///'' then 2 else 1)
               else (0::nat));
            comps = norm_comps initial_slashes [] (split_sep [] path);
            joined = replicate initial_slashes (CHR ''/'') @ join_str ''/'' comps
        in if joined = [] then ''.'' else joined)"


subsection \<open>Formatting: \<^verbatim>\<open>'{:d}'.format(n)\<close> and \<^verbatim>\<open>'{}'.format(some_bytes)\<close>\<close>

fun nat_digits :: "nat \<Rightarrow> string" where
  "nat_digits n =
     (if n < 10 then [char_of (48 + n)]
      else nat_digits (n div 10) @ [char_of (48 + n mod 10)])"

declare nat_digits.simps [simp del]

definition format_d :: "int \<Rightarrow> string" where
  "format_d i = (if i < 0 then ''-'' @ nat_digits (nat (- i)) else nat_digits (nat i))"

definition hex_digit :: "nat \<Rightarrow> char" where
  "hex_digit n = ''0123456789abcdef'' ! n"

definition escape_byte :: "char \<Rightarrow> char \<Rightarrow> string" where
  \<comment> \<open>one byte inside the \<^verbatim>\<open>repr\<close> of a bytes object quoted with \<open>q\<close>\<close>
  "escape_byte q c =
     (if c = q \<or> c = CHR 0x5C then [CHR 0x5C, c]
      else if c = CHR 0x09 then [CHR 0x5C, CHR ''t'']
      else if c = CHR 0x0A then [CHR 0x5C, CHR ''n'']
      else if c = CHR 0x0D then [CHR 0x5C, CHR ''r'']
      else if code_point c < 32 \<or> 127 \<le> code_point c
        then [CHR 0x5C, CHR ''x'', hex_digit (code_point c div 16), hex_digit (code_point c mod 16)]
      else [c])"

definition bytes_repr :: "string \<Rightarrow> string" where
  \<comment> \<open>what \<^verbatim>\<open>'{}'.format(b)\<close> gives for a bytes object: its \<^verbatim>\<open>repr\<close>\<close>
  "bytes_repr bs =
     (let q = (if CHR 0x27 \<in> set bs \<and> CHR 0x22 \<notin> set bs then CHR 0x22 else CHR 0x27)
      in ''b'' @ [q] @ concat (map (escape_byte q) bs) @ [q])"

subsection \<open>The pattern \<^verbatim>\<open>.*PID\s?:\s+(\d+).*\<close> under \<^verbatim>\<open>re.match\<close>\<close>

text \<open>
  \<open>match_pid_here\<close> matches \<^verbatim>\<open>PID\s?:\s+(\d+)\<close> at the head of the text and gives the number
  read by the group. \<open>match_pid\<close> places the greedy \<^verbatim>\<open>.*\<close> before it: the dot does not match
  a newline, and the longest prefix that lets the rest match wins, so the last place of the
  first line where the pattern matches is taken.
\<close>

definition digits_value :: "string \<Rightarrow> nat" where
  "digits_value ds = foldl (\<lambda>acc c. 10 * acc + digit_val c) 0 ds"

definition match_pid_here :: "string \<Rightarrow> nat option" where
  "match_pid_here s =
     (if take 3 s \<noteq> ''PID'' then None
      else
        let r = drop 3 s;
            r1 = (if r \<noteq> [] \<and> py_isspace (hd r) then tl r else r)
        in if take 1 r1 \<noteq> '':'' then None
           else
             let r2 = drop 1 r1;
                 r3 = dropWhile py_isspace r2
             in if length r3 = length r2 then None
                else if r3 = [] \<or> \<not> is_digit (hd r3) then None
                else Some (digits_value (takeWhile is_digit r3)))"

fun match_pid :: "string \<Rightarrow> nat option" where
  "match_pid [] = None"
| "match_pid (c # cs) =
     (if c = CHR 0x0A then None
      else case match_pid cs of
             Some pid \<Rightarrow> Some pid
           | None \<Rightarrow> match_pid_here (c # cs))"

declare match_pid.simps [simp del]

section \<open>The cluster handle, the outside world and errors\<close>

datatype value_error =
    Invalid_int_literal string
  | Invalid_hba_type string
  | Address_required string
  | Empty_range int int

datatype error =
    ClusterError string
  | ValueError value_error
  | FileNotFoundError
  | Connect_raised
  | Bind_raised

type_synonym conn_spec = "(string \<times> string) list"

type_synonym directory = "(string \<times> string) list"

text \<open>The fields of \<^verbatim>\<open>Cluster\<close> that the modelled methods read or write.\<close>

record cluster =
  data_dir :: string
  pg_ctl :: "string option"
  postgres :: "string option"
  daemon_pid :: "int option"
  connection_addr :: "conn_spec option"
  connection_spec_override :: "conn_spec option"

text \<open>
  What a run of a control tool gives back. The tools' output is taken to be ASCII, so that
  \<^verbatim>\<open>decode()\<close> is the identity.
\<close>

record proc =
  returncode :: int
  stdout :: string
  stderr :: string

datatype connect_outcome =
    Connected
  | Not_reachable
  | Postgres_error
  | Other_exception

datatype bind_outcome =
    Bind_ok
  | Addr_in_use
  | Other_socket_error
  | Bind_exception

text \<open>
  The part of the outside that the program only observes. Outcomes are numbered by the count
  of earlier observations of the same kind, so any sequence of outcomes is some environment.
  \<^item> \<open>windows\<close>: \<^verbatim>\<open>_system == 'Windows'\<close>.
  \<^item> \<open>resolve_env\<close>: the outcome of \<^verbatim>\<open>_init_env\<close> (locating pg_config, pg_ctl and postgres):
    the exception it raises, or the paths of pg_ctl and postgres.
  \<^item> \<open>run_pg_ctl_status\<close>, \<open>run_pg_ctl_reload\<close>: the outcome of the n-th run of the tool.
  \<^item> \<open>connect_result\<close>: the outcome of the n-th \<^verbatim>\<open>asyncpg.connect\<close>: \<open>Not_reachable\<close> stands for
    OSError, asyncio.TimeoutError, CannotConnectNowError and PostgresConnectionError,
    \<open>Postgres_error\<close> for any other PostgresError, \<open>Other_exception\<close> for any other exception.
  \<^item> \<open>server_activity\<close>: what the server does to the data directory during the n-th second
    the program sleeps.
  \<^item> \<open>hba_denied\<close>, \<open>io_error_text\<close>: whether opening pg_hba.conf for writing fails, and the
    text of the operating system's error.
  \<^item> \<open>random_draw\<close>, \<open>bind_result\<close>: the n-th random number, and the outcome of the n-th
    \<^verbatim>\<open>bind\<close> on a port.
\<close>

record env =
  windows :: bool
  resolve_env :: "error + string \<times> string"
  run_pg_ctl_status :: "nat \<Rightarrow> proc"
  run_pg_ctl_reload :: "nat \<Rightarrow> proc"
  connect_result :: "nat \<Rightarrow> connect_outcome"
  server_activity :: "nat \<Rightarrow> directory option \<Rightarrow> directory option"
  hba_denied :: bool
  io_error_text :: string
  random_draw :: "nat \<Rightarrow> nat"
  bind_result :: "nat \<Rightarrow> int \<Rightarrow> bind_outcome"

text \<open>
  The part of the outside that the program changes: the data directory (\<open>None\<close> when it does
  not exist, else its files by name), the seconds slept, and how often each tool was run.
\<close>

record world =
  datadir :: "directory option"
  clock :: nat
  status_runs :: nat
  reload_runs :: nat
  connect_attempts :: nat
  bind_attempts :: nat

type_synonym 'a result = "(error + 'a) \<times> cluster \<times> world"

definition and_then :: "'a result \<Rightarrow> ('a \<Rightarrow> cluster \<Rightarrow> world \<Rightarrow> 'b result) \<Rightarrow> 'b result" where
  \<comment> \<open>sequencing: an exception of the first statement skips the rest\<close>
  "and_then r f = (case r of (Inl err, c, w) \<Rightarrow> (Inl err, c, w) | (Inr x, c, w) \<Rightarrow> f x c w)"

definition read_file :: "world \<Rightarrow> string \<Rightarrow> string option" where
  \<comment> \<open>the text of a file of the data directory; \<open>None\<close> is FileNotFoundError\<close>
  "read_file w name = (case datadir w of None \<Rightarrow> None | Some d \<Rightarrow> map_of d name)"

definition listdir :: "world \<Rightarrow> error + string list" where
  "listdir w = (case datadir w of None \<Rightarrow> Inl FileNotFoundError | Some d \<Rightarrow> Inr (map fst d))"

definition sleep :: "env \<Rightarrow> world \<Rightarrow> world" where
  \<comment> \<open>\<^verbatim>\<open>time.sleep(1)\<close>\<close>
  "sleep e w = w\<lparr>clock := Suc (clock w), datadir := server_activity e (clock w) (datadir w)\<rparr>"

section \<open>Connection discovery\<close>

definition truthy_pid :: "int option \<Rightarrow> bool" where
  \<comment> \<open>the truth value of \<^verbatim>\<open>self._daemon_pid\<close>: false for \<^verbatim>\<open>None\<close> and for 0\<close>
  "truthy_pid p = (case p of None \<Rightarrow> False | Some n \<Rightarrow> n \<noteq> 0)"

definition connection_addr_from_pidfile :: "cluster \<Rightarrow> world \<Rightarrow> error + conn_spec option" where
  "connection_addr_from_pidfile c w =
     (case read_file w ''postmaster.pid'' of
        None \<Rightarrow> Inr None
      | Some piddata \<Rightarrow>
          let lines = splitlines piddata in
          if length lines < 6 then Inr None
          else
            (case py_int (lines ! 0) of
               None \<Rightarrow> Inl (ValueError (Invalid_int_literal (lines ! 0)))
             | Some pmpid \<Rightarrow>
                 if truthy_pid (daemon_pid c) \<and> Some pmpid \<noteq> daemon_pid c then Inr None
                 else
                   let portnum = lines ! 3;
                       sockdir = lines ! 4;
                       hostaddr = lines ! 5;
                       chosen =
                         (if sockdir \<noteq> []
                          then (if hd sockdir \<noteq> CHR ''/''
                                then normpath (path_join (data_dir c) sockdir)
                                else sockdir)
                          else hostaddr);
                       host_str =
                         (if chosen = ''*'' then ''localhost''
                          else (if chosen = ''0.0.0.0'' then ''127.0.0.1''
                          else (if chosen = ''::'' then ''::1''
                          else chosen)))
                   in Inr (Some [(''host'', host_str), (''port'', portnum)])))"

definition truthy_dict :: "conn_spec option \<Rightarrow> bool" where
  \<comment> \<open>the truth value of \<^verbatim>\<open>self._connection_spec_override\<close>: false for \<^verbatim>\<open>None\<close> and for {}\<close>
  "truthy_dict d = (case d of None \<Rightarrow> False | Some kvs \<Rightarrow> kvs \<noteq> [])"

definition dict_update :: "conn_spec \<Rightarrow> conn_spec \<Rightarrow> conn_spec" where
  \<comment> \<open>\<^verbatim>\<open>args.update(other)\<close>\<close>
  "dict_update args other = fold (\<lambda>(k, v) d. AList.update k v d) other args"

definition private_get_connection_spec ::
  "cluster \<Rightarrow> world \<Rightarrow> (error + conn_spec option) \<times> cluster" where
  \<comment> \<open>\<^verbatim>\<open>Cluster._get_connection_spec\<close>\<close>
  "private_get_connection_spec c w =
     (case (if connection_addr c = None
            then (case connection_addr_from_pidfile c w of
                    Inl err \<Rightarrow> Inl err
                  | Inr addr \<Rightarrow> Inr (c\<lparr>connection_addr := addr\<rparr>))
            else Inr c) of
        Inl err \<Rightarrow> (Inl err, c)
      | Inr c1 \<Rightarrow>
          (case connection_addr c1 of
             None \<Rightarrow> (Inr None, c1)
           | Some addr \<Rightarrow>
               if truthy_dict (connection_spec_override c1)
               then (case connection_spec_override c1 of
                       Some override \<Rightarrow> (Inr (Some (dict_update addr override)), c1)
                     | None \<Rightarrow> (Inr (Some addr), c1))
               else (Inr (Some addr), c1)))"

section \<open>The readiness wait\<close>

definition try_connect :: "env \<Rightarrow> world \<Rightarrow> connect_outcome \<times> world" where
  "try_connect e w =
     (connect_result e (connect_attempts w), w\<lparr>connect_attempts := Suc (connect_attempts w)\<rparr>)"

text \<open>
  The body of \<^verbatim>\<open>for i in range(timeout)\<close>, with the number of iterations left. The first
  component of the result is the exception that left the loop, if any.
\<close>

fun test_loop :: "env \<Rightarrow> nat \<Rightarrow> cluster \<Rightarrow> world \<Rightarrow> error option \<times> cluster \<times> world" where
  "test_loop e 0 c w = (None, c, w)"
| "test_loop e (Suc n) c w =
     (case (if connection_addr c = None then private_get_connection_spec c w
            else (Inr (connection_addr c), c)) of
        (Inl err, c1) \<Rightarrow> (Some err, c1, w)
      | (Inr None, c1) \<Rightarrow> test_loop e n c1 (sleep e w)
      | (Inr (Some conn_spec), c1) \<Rightarrow>
          (case try_connect e w of
             (Not_reachable, w1) \<Rightarrow> test_loop e n c1 (sleep e w1)
           | (Postgres_error, w1) \<Rightarrow> (None, c1, w1)
           | (Connected, w1) \<Rightarrow> (None, c1, w1)
           | (Other_exception, w1) \<Rightarrow> (Some Connect_raised, c1, w1)))"

definition test_connection :: "env \<Rightarrow> int \<Rightarrow> cluster \<Rightarrow> world \<Rightarrow> string result" where
  \<comment> \<open>\<^verbatim>\<open>Cluster._test_connection\<close>; \<^verbatim>\<open>range(timeout)\<close> is empty for a timeout below 1\<close>
  "test_connection e timeout c w =
     (case test_loop e (nat timeout) (c\<lparr>connection_addr := None\<rparr>) w of
        (Some err, c1, w1) \<Rightarrow> (Inl err, c1, w1)
      | (None, c1, w1) \<Rightarrow> (Inr ''running'', c1, w1))"

section \<open>Status, access control, reload and destroy\<close>

definition init_env :: "env \<Rightarrow> cluster \<Rightarrow> error + cluster" where
  "init_env e c =
     (case resolve_env e of
        Inl err \<Rightarrow> Inl err
      | Inr (ctl, pg) \<Rightarrow> Inr (c\<lparr>pg_ctl := Some ctl, postgres := Some pg\<rparr>))"

definition ensure_env :: "env \<Rightarrow> cluster \<Rightarrow> error + cluster" where
  \<comment> \<open>\<^verbatim>\<open>if self._pg_ctl is None: self._init_env()\<close>\<close>
  "ensure_env e c = (if pg_ctl c = None then init_env e c else Inr c)"

definition get_status :: "env \<Rightarrow> cluster \<Rightarrow> world \<Rightarrow> string result" where
  "get_status e c w =
     (case ensure_env e c of
        Inl err \<Rightarrow> (Inl err, c, w)
      | Inr c1 \<Rightarrow>
          let process = run_pg_ctl_status e (status_runs w);
              w1 = w\<lparr>status_runs := Suc (status_runs w)\<rparr>
          in if returncode process = 4 then (Inr ''not-initialized'', c1, w1)
             else
               (case listdir w1 of
                  Inl err \<Rightarrow> (Inl err, c1, w1)
                | Inr names \<Rightarrow>
                    if names = [] then (Inr ''not-initialized'', c1, w1)
                    else if returncode process = 3 then (Inr ''stopped'', c1, w1)
                    else if returncode process = 0 then
                      (case match_pid (stdout process) of
                         None \<Rightarrow>
                           (Inl (ClusterError
                              (''could not parse pg_ctl status output: '' @ stdout process)),
                            c1, w1)
                       | Some pid \<Rightarrow>
                           test_connection e 0 (c1\<lparr>daemon_pid := Some (int pid)\<rparr>) w1)
                    else
                      (Inl (ClusterError
                         (''pg_ctl status exited with status '' @ format_d (returncode process)
                            @ '': '' @ bytes_repr (stderr process))),
                       c1, w1)))"

definition reload :: "env \<Rightarrow> cluster \<Rightarrow> world \<Rightarrow> unit result" where
  "reload e c w =
     and_then (get_status e c w) (\<lambda>status c w.
       if status \<noteq> ''running''
       then (Inl (ClusterError ''cannot reload: cluster is not running''), c, w)
       else
         let process = run_pg_ctl_reload e (reload_runs w);
             w1 = w\<lparr>reload_runs := Suc (reload_runs w)\<rparr>
         in if returncode process \<noteq> 0
            then (Inl (ClusterError
                    (''pg_ctl stop exited with status '' @ format_d (returncode process)
                       @ '': '' @ stderr process)),
                  c, w1)
            else (Inr (), c, w1))"

definition destroy :: "env \<Rightarrow> cluster \<Rightarrow> world \<Rightarrow> unit result" where
  "destroy e c w =
     and_then (get_status e c w) (\<lambda>status c w.
       if status = ''stopped'' \<or> status = ''not-initialized''
       then (case datadir w of
               None \<Rightarrow> (Inl FileNotFoundError, c, w)
             | Some d \<Rightarrow> (Inr (), c, w\<lparr>datadir := None\<rparr>))
       else (Inl (ClusterError (''cannot destroy '' @ status @ '' cluster'')), c, w))"

definition get_connection_spec :: "env \<Rightarrow> cluster \<Rightarrow> world \<Rightarrow> conn_spec option result" where
  "get_connection_spec e c w =
     and_then (get_status e c w) (\<lambda>status c w.
       if status \<noteq> ''running'' then (Inl (ClusterError ''cluster is not running''), c, w)
       else (case private_get_connection_spec c w of (r, c1) \<Rightarrow> (r, c1, w)))"

definition open_hba :: "env \<Rightarrow> world \<Rightarrow> string + directory" where
  \<comment> \<open>opening pg_hba.conf for writing: the text of the IOError, or the directory it is in\<close>
  "open_hba e w =
     (case datadir w of
        None \<Rightarrow> Inl (io_error_text e)
      | Some d \<Rightarrow> if hba_denied e then Inl (io_error_text e) else Inr d)"

definition reset_hba :: "env \<Rightarrow> cluster \<Rightarrow> world \<Rightarrow> unit result" where
  "reset_hba e c w =
     and_then (get_status e c w) (\<lambda>status c w.
       if status = ''not-initialized''
       then (Inl (ClusterError ''cannot modify HBA records: cluster is not initialized''), c, w)
       else
         (case open_hba e w of
            Inl text \<Rightarrow> (Inl (ClusterError (''cannot modify HBA records: '' @ text)), c, w)
          | Inr d \<Rightarrow> (Inr (), c, w\<lparr>datadir := Some (AList.update ''pg_hba.conf'' [] d)\<rparr>)))"

definition hba_record ::
  "string \<Rightarrow> string \<Rightarrow> string \<Rightarrow> string option \<Rightarrow> string \<Rightarrow> (string \<times> string) list option \<Rightarrow> string"
where
  \<comment> \<open>the text of the record that \<^verbatim>\<open>add_hba_entry\<close> builds\<close>
  "hba_record hba_type database user address auth_method auth_options =
     (let entry = hba_type @ '' '' @ database @ '' '' @ user;
          entry = (if hba_type \<noteq> ''local''
                   then (case address of Some a \<Rightarrow> entry @ '' '' @ a | None \<Rightarrow> entry)
                   else entry);
          entry = entry @ '' '' @ auth_method
      in case auth_options of
           None \<Rightarrow> entry
         | Some opts \<Rightarrow> entry @ '' '' @ join_str '' '' (map (\<lambda>(k, v). k @ ''='' @ v) opts))"

definition add_hba_entry ::
  "env \<Rightarrow> string \<Rightarrow> string \<Rightarrow> string \<Rightarrow> string option \<Rightarrow> string \<Rightarrow> (string \<times> string) list option
     \<Rightarrow> cluster \<Rightarrow> world \<Rightarrow> unit result"
where
  "add_hba_entry e hba_type database user address auth_method auth_options c w =
     and_then (get_status e c w) (\<lambda>status c w.
       if status = ''not-initialized''
       then (Inl (ClusterError ''cannot modify HBA records: cluster is not initialized''), c, w)
       else if hba_type \<notin> set [''local'', ''host'', ''hostssl'', ''hostnossl'']
       then (Inl (ValueError (Invalid_hba_type hba_type)), c, w)
       else if hba_type \<noteq> ''local'' \<and> address = None
       then (Inl (ValueError (Address_required hba_type)), c, w)
       else
         (case open_hba e w of
            Inl text \<Rightarrow> (Inl (ClusterError (''cannot modify HBA records: '' @ text)), c, w)
          | Inr d \<Rightarrow>
              let old = (case map_of d ''pg_hba.conf'' of None \<Rightarrow> [] | Some text \<Rightarrow> text);
                  line = hba_record hba_type database user address auth_method auth_options
                           @ [CHR 0x0A]
              in (Inr (), c, w\<lparr>datadir := Some (AList.update ''pg_hba.conf'' (old @ line) d)\<rparr>)))"

definition reload_if_running :: "env \<Rightarrow> cluster \<Rightarrow> world \<Rightarrow> unit result" where
  \<comment> \<open>the last three lines of both trust helpers\<close>
  "reload_if_running e c w =
     and_then (get_status e c w) (\<lambda>status c w.
       if status = ''running'' then reload e c w else (Inr (), c, w))"

definition trust_local_connections :: "env \<Rightarrow> cluster \<Rightarrow> world \<Rightarrow> unit result" where
  "trust_local_connections e c w =
     and_then (reset_hba e c w) (\<lambda>_ c w.
     and_then (if \<not> windows e
               then add_hba_entry e ''local'' ''all'' ''all'' None ''trust'' None c w
               else (Inr (), c, w)) (\<lambda>_ c w.
     and_then (add_hba_entry e ''host'' ''all'' ''all'' (Some ''127.0.0.1/32'') ''trust'' None c w)
       (\<lambda>_ c w.
     and_then (add_hba_entry e ''host'' ''all'' ''all'' (Some ''::1/128'') ''trust'' None c w)
       (\<lambda>_ c w. reload_if_running e c w))))"

definition trust_local_replication_by :: "env \<Rightarrow> string \<Rightarrow> cluster \<Rightarrow> world \<Rightarrow> unit result" where
  "trust_local_replication_by e user c w =
     and_then (if \<not> windows e
               then add_hba_entry e ''local'' ''replication'' user None ''trust'' None c w
               else (Inr (), c, w)) (\<lambda>_ c w.
     and_then (add_hba_entry e ''host'' ''replication'' user (Some ''127.0.0.1/32'') ''trust''
                 None c w) (\<lambda>_ c w.
     and_then (add_hba_entry e ''host'' ''replication'' user (Some ''::1/128'') ''trust''
                 None c w) (\<lambda>_ c w. reload_if_running e c w)))"

section \<open>Searching for a free port\<close>

text \<open>
  The \<^verbatim>\<open>while try_no < max_tries\<close> loop, with the number of tries left. \<^verbatim>\<open>random.randint\<close>
  raises ValueError on an empty range; a socket error other than EADDRINUSE is swallowed by
  the \<^verbatim>\<open>except\<close> clause and the loop is left with the port drawn.
\<close>

fun port_loop :: "env \<Rightarrow> int \<Rightarrow> int \<Rightarrow> nat \<Rightarrow> world \<Rightarrow> (error + int option) \<times> world" where
  "port_loop e low high 0 w = (Inr None, w)"
| "port_loop e low high (Suc n) w =
     (if high < low then (Inl (ValueError (Empty_range low high)), w)
      else
        let port = low + int (random_draw e (bind_attempts w) mod nat (high - low + 1));
            w1 = w\<lparr>bind_attempts := Suc (bind_attempts w)\<rparr>
        in case bind_result e (bind_attempts w) port of
             Addr_in_use \<Rightarrow> port_loop e low high n w1
           | Other_socket_error \<Rightarrow> (Inr (Some port), w1)
           | Bind_ok \<Rightarrow> (Inr (Some port), w1)
           | Bind_exception \<Rightarrow> (Inl Bind_raised, w1))"

definition find_available_port ::
  "env \<Rightarrow> int \<times> int \<Rightarrow> int \<Rightarrow> world \<Rightarrow> (error + int option) \<times> world" where
  "find_available_port e port_range max_tries w =
     (case port_range of (low, high) \<Rightarrow> port_loop e low high (nat max_tries) w)"

section \<open>The unmanaged variant\<close>

text \<open>
  \<^verbatim>\<open>RunningCluster\<close> keeps the dictionary it was created with and hands out copies of it. To
  tell a copy from the dictionary itself, dictionaries live in a store and are named by their
  address there; a new dictionary takes the next free address.
\<close>

type_synonym store = "conn_spec list"

record running_cluster =
  conn_spec :: nat

type_synonym 'a running_result = "(error + 'a) \<times> running_cluster \<times> store \<times> world"

definition running_is_managed :: "running_cluster \<Rightarrow> bool" where
  "running_is_managed rc = False"

definition running_get_connection_spec :: "running_cluster \<Rightarrow> store \<Rightarrow> nat \<times> store" where
  \<comment> \<open>\<^verbatim>\<open>return dict(self.conn_spec)\<close>: the address of the new dictionary, and the store with it\<close>
  "running_get_connection_spec rc h = (length h, h @ [h ! conn_spec rc])"

definition running_get_status :: "running_cluster \<Rightarrow> store \<Rightarrow> world \<Rightarrow> string running_result" where
  "running_get_status rc h w = (Inr ''running'', rc, h, w)"

definition running_init ::
  "(string \<times> string) list \<Rightarrow> running_cluster \<Rightarrow> store \<Rightarrow> world \<Rightarrow> unit running_result" where
  "running_init settings rc h w = (Inr (), rc, h, w)"

definition running_start ::
  "int \<Rightarrow> (string \<times> string) list \<Rightarrow> running_cluster \<Rightarrow> store \<Rightarrow> world \<Rightarrow> unit running_result"
where
  "running_start wait settings rc h w = (Inr (), rc, h, w)"

definition running_stop ::
  "int \<Rightarrow> running_cluster \<Rightarrow> store \<Rightarrow> world \<Rightarrow> unit running_result" where
  "running_stop wait rc h w = (Inr (), rc, h, w)"

definition running_destroy ::
  "running_cluster \<Rightarrow> store \<Rightarrow> world \<Rightarrow> unit running_result" where
  "running_destroy rc h w = (Inr (), rc, h, w)"

definition running_reset_hba ::
  "running_cluster \<Rightarrow> store \<Rightarrow> world \<Rightarrow> unit running_result" where
  "running_reset_hba rc h w =
     (Inl (ClusterError ''cannot modify HBA records of unmanaged cluster''), rc, h, w)"

definition running_add_hba_entry ::
  "string \<Rightarrow> string \<Rightarrow> string \<Rightarrow> string option \<Rightarrow> string \<Rightarrow> (string \<times> string) list option
     \<Rightarrow> running_cluster \<Rightarrow> store \<Rightarrow> world \<Rightarrow> unit running_result"
where
  "running_add_hba_entry hba_type database user address auth_method auth_options rc h w =
     (Inl (ClusterError ''cannot modify HBA records of unmanaged cluster''), rc, h, w)"

section \<open>The specification's wording\<close>

text \<open>
  The definitions of this section follow the words of the specification, not the code; the
  theorems below compare the code with them.
\<close>

definition spec_choose_host :: "string \<Rightarrow> string \<Rightarrow> string \<Rightarrow> string" where
  \<comment> \<open>the socket directory when it is not empty, a relative one joined to the data directory
      and normalized; otherwise the listen address\<close>
  "spec_choose_host dir sockdir hostaddr =
     (if sockdir \<noteq> []
      then (if hd sockdir \<noteq> CHR ''/'' then normpath (path_join dir sockdir) else sockdir)
      else hostaddr)"

definition spec_wildcard :: "string \<Rightarrow> string" where
  \<comment> \<open>wildcard addresses become loopback addresses\<close>
  "spec_wildcard h =
     (if h = ''*'' then ''localhost''
      else if h = ''0.0.0.0'' then ''127.0.0.1''
      else if h = ''::'' then ''::1''
      else h)"

definition spec_trust_entries :: "bool \<Rightarrow> string \<Rightarrow> string \<Rightarrow> string" where
  \<comment> \<open>the standard trust entries: a local entry unless on Windows, then the two loopback
      host entries, one line each\<close>
  "spec_trust_entries win database user =
     (if win then [] else ''local '' @ database @ '' '' @ user @ '' trust'' @ [CHR 0x0A])
     @ ''host '' @ database @ '' '' @ user @ '' 127.0.0.1/32 trust'' @ [CHR 0x0A]
     @ ''host '' @ database @ '' '' @ user @ '' ::1/128 trust'' @ [CHR 0x0A]"

definition hba_text :: "world \<Rightarrow> string" where
  \<comment> \<open>the text of the access-control file, empty when there is no such file\<close>
  "hba_text w = (case read_file w ''pg_hba.conf'' of None \<Rightarrow> [] | Some content \<Rightarrow> content)"


section \<open>Example inputs\<close>

definition example_pidfile :: "string \<Rightarrow> string \<Rightarrow> string \<Rightarrow> string" where
  \<comment> \<open>a status file of seven lines with the given process id, socket directory and listen
      address, and port 5432\<close>
  "example_pidfile pid sockdir hostaddr =
     pid @ [CHR 0x0A] @ ''/data/pg'' @ [CHR 0x0A] @ ''1500000000'' @ [CHR 0x0A] @ ''5432''
       @ [CHR 0x0A] @ sockdir @ [CHR 0x0A] @ hostaddr @ [CHR 0x0A] @ ''  5432001  0''
       @ [CHR 0x0A]"

definition example_hba :: string where
  \<comment> \<open>an access-control file with the three trust entries for all databases and users\<close>
  "example_hba =
     ''local all all trust'' @ [CHR 0x0A]
     @ ''host all all 127.0.0.1/32 trust'' @ [CHR 0x0A]
     @ ''host all all ::1/128 trust'' @ [CHR 0x0A]"

definition example_cluster :: "int option \<Rightarrow> cluster" where
  "example_cluster pid =
     \<lparr>data_dir = ''/data/pg'', pg_ctl = Some ''/usr/bin/pg_ctl'',
      postgres = Some ''/usr/bin/postgres'', daemon_pid = pid,
      connection_addr = None, connection_spec_override = None\<rparr>"

definition example_world :: "directory option \<Rightarrow> world" where
  "example_world d =
     \<lparr>datadir = d, clock = 0, status_runs = 0, reload_runs = 0, connect_attempts = 0,
      bind_attempts = 0\<rparr>"

definition example_proc :: "int \<Rightarrow> string \<Rightarrow> string \<Rightarrow> proc" where
  "example_proc code out err = \<lparr>returncode = code, stdout = out, stderr = err\<rparr>"

definition example_env :: "bool \<Rightarrow> (nat \<Rightarrow> proc) \<Rightarrow> (nat \<Rightarrow> connect_outcome) \<Rightarrow> env" where
  \<comment> \<open>an idle server, a writable access-control file, and every port taken\<close>
  "example_env win status conn =
     \<lparr>windows = win, resolve_env = Inr (''/usr/bin/pg_ctl'', ''/usr/bin/postgres''),
      run_pg_ctl_status = status, run_pg_ctl_reload = (\<lambda>n. example_proc 0 [] []),
      connect_result = conn, server_activity = (\<lambda>n d. d), hba_denied = False,
      io_error_text = ''[Errno 13] Permission denied'', random_draw = (\<lambda>n. 7 * n),
      bind_result = (\<lambda>n port. Addr_in_use)\<rparr>"

definition running_proc :: proc where
  "running_proc = example_proc 0 ''pg_ctl: server is running (PID: 4242)'' []"

definition stopped_proc :: proc where
  "stopped_proc = example_proc 3 ''pg_ctl: no server running'' []"

section \<open>Connection discovery: what the status file yields\<close>

text \<open>
  Claim C1, as amended. On a status file of at least 6 lines whose first line reads as an
  integer, and with no recorded process id that is non-zero and differs from that integer,
  connection discovery returns the host and the port: the port is line 4; the host is line 5
  (the socket directory) when that is not empty, a relative one being joined to the data
  directory and normalized, and line 6 (the listen address) otherwise; and the host chosen has
  \<^verbatim>\<open>*\<close> mapped to \<^verbatim>\<open>localhost\<close>, \<^verbatim>\<open>0.0.0.0\<close> to \<^verbatim>\<open>127.0.0.1\<close> and \<^verbatim>\<open>::\<close> to \<^verbatim>\<open>::1\<close>.
\<close>

theorem pidfile_address:
  assumes "read_file w ''postmaster.pid'' = Some piddata"
    and "6 \<le> length (splitlines piddata)"
    and "py_int (splitlines piddata ! 0) = Some pmpid"
    and "\<not> truthy_pid (daemon_pid c) \<or> daemon_pid c = Some pmpid"
  shows "connection_addr_from_pidfile c w =
      Inr (Some [(''host'', spec_wildcard (spec_choose_host (data_dir c)
                    (splitlines piddata ! 4) (splitlines piddata ! 5))),
                 (''port'', splitlines piddata ! 3)])"
  using assms
  by (auto simp: connection_addr_from_pidfile_def Let_def spec_wildcard_def spec_choose_host_def)

text \<open>
  A status file with process id 4242, which is the one recorded, and the relative socket
  directory \<^verbatim>\<open>run/../sock\<close> under the data directory \<^verbatim>\<open>/data/pg\<close>.
\<close>

theorem pidfile_address_witness:
  "connection_addr_from_pidfile (example_cluster (Some 4242))
     (example_world (Some [(''postmaster.pid'', example_pidfile ''4242'' ''run/../sock'' ''*'')]))
   = Inr (Some [(''host'', ''/data/pg/sock''), (''port'', ''5432'')])"
  using pidfile_address [of
      "example_world (Some [(''postmaster.pid'', example_pidfile ''4242'' ''run/../sock'' ''*'')])"
      "example_pidfile ''4242'' ''run/../sock'' ''*''" 4242 "example_cluster (Some 4242)"]
  by code_simp

text \<open>
  The claim as it was stated fails on a complete status file left by another server: the file
  has seven lines and starts with 1234, the recorded process id is 4242, and no address is
  returned.
\<close>

theorem pidfile_stale_counterexample:
  "6 \<le> length (splitlines (example_pidfile ''1234'' [] ''*''))
   \<and> connection_addr_from_pidfile (example_cluster (Some 4242))
        (example_world (Some [(''postmaster.pid'', example_pidfile ''1234'' [] ''*'')]))
      = Inr None"
  by code_simp

text \<open>
  Claim C6. Connection discovery returns no address whenever the status file has fewer than
  6 lines, and also whenever a daemon process id was recorded before and the integer on the
  first line of the status file differs from it: the file is taken to be stale. A recorded
  process id is that of a live process, so it is not 0. The first conjunct adds the case of
  no status file at all.
\<close>

theorem pidfile_no_address:
  "(read_file w ''postmaster.pid'' = None \<longrightarrow> connection_addr_from_pidfile c w = Inr None)
   \<and> (read_file w ''postmaster.pid'' = Some piddata \<and> length (splitlines piddata) < 6
        \<longrightarrow> connection_addr_from_pidfile c w = Inr None)
   \<and> (read_file w ''postmaster.pid'' = Some piddata \<and> 6 \<le> length (splitlines piddata)
        \<and> py_int (splitlines piddata ! 0) = Some pmpid
        \<and> daemon_pid c = Some recorded \<and> recorded \<noteq> 0 \<and> pmpid \<noteq> recorded
        \<longrightarrow> connection_addr_from_pidfile c w = Inr None)"
  by (auto simp: connection_addr_from_pidfile_def Let_def truthy_pid_def)

text \<open>A status file of two lines, and a complete one that starts with 78 when 77 is recorded.\<close>

theorem pidfile_no_address_witness:
  "connection_addr_from_pidfile (example_cluster (Some 77))
     (example_world (Some [(''postmaster.pid'', ''77'' @ [CHR 0x0A] @ ''/data/pg'' @ [CHR 0x0A])]))
     = Inr None
   \<and> connection_addr_from_pidfile (example_cluster (Some 77))
     (example_world (Some [(''postmaster.pid'', example_pidfile ''78'' ''/tmp'' ''*'')]))
     = Inr None"
  using pidfile_no_address [of
      "example_world (Some [(''postmaster.pid'', ''77'' @ [CHR 0x0A] @ ''/data/pg'' @ [CHR 0x0A])])"
      "example_cluster (Some 77)" "''77'' @ [CHR 0x0A] @ ''/data/pg'' @ [CHR 0x0A]" 77 77]
    pidfile_no_address [of
      "example_world (Some [(''postmaster.pid'', example_pidfile ''78'' ''/tmp'' ''*'')])"
      "example_cluster (Some 77)" "example_pidfile ''78'' ''/tmp'' ''*''" 78 77]
  by code_simp

text \<open>
  Claim C10. On a status file of at least 6 lines whose first line \<^verbatim>\<open>int()\<close> does not accept,
  connection discovery raises ValueError, whatever process id is recorded: the conversion
  comes before the comparison. Nothing catches it: it leaves \<^verbatim>\<open>_get_connection_spec\<close>, and the
  readiness wait with a timeout of at least one second.
\<close>

theorem pidfile_bad_pid_raises:
  assumes "read_file w ''postmaster.pid'' = Some piddata"
    and "6 \<le> length (splitlines piddata)"
    and "py_int (splitlines piddata ! 0) = None"
  shows "connection_addr_from_pidfile c w
           = Inl (ValueError (Invalid_int_literal (splitlines piddata ! 0)))
       \<and> (connection_addr c = None \<longrightarrow>
            private_get_connection_spec c w
              = (Inl (ValueError (Invalid_int_literal (splitlines piddata ! 0))), c))
       \<and> (0 < timeout \<longrightarrow>
            test_connection e timeout c w
              = (Inl (ValueError (Invalid_int_literal (splitlines piddata ! 0))),
                 c\<lparr>connection_addr := None\<rparr>, w))"
proof -
  have raise: "connection_addr_from_pidfile c' w
           = Inl (ValueError (Invalid_int_literal (splitlines piddata ! 0)))" for c'
    using assms by (simp add: connection_addr_from_pidfile_def Let_def)
  have priv: "private_get_connection_spec c' w
              = (Inl (ValueError (Invalid_int_literal (splitlines piddata ! 0))), c')"
    if "connection_addr c' = None" for c'
    using that by (simp add: private_get_connection_spec_def raise)
  have loop: "test_connection e timeout c w
              = (Inl (ValueError (Invalid_int_literal (splitlines piddata ! 0))),
                 c\<lparr>connection_addr := None\<rparr>, w)" if "0 < timeout"
  proof -
    from that obtain n where n: "nat timeout = Suc n"
      by (cases "nat timeout") auto
    show ?thesis
      by (simp add: test_connection_def n priv)
  qed
  from raise priv loop show ?thesis by blast
qed

text \<open>A complete status file whose first line is \<^verbatim>\<open>12a4\<close>, with a stale process id recorded.\<close>

theorem pidfile_bad_pid_raises_witness:
  "connection_addr_from_pidfile (example_cluster (Some 4242))
     (example_world (Some [(''postmaster.pid'', example_pidfile ''12a4'' ''/tmp'' ''*'')]))
     = Inl (ValueError (Invalid_int_literal ''12a4''))
   \<and> fst (test_connection (example_env False (\<lambda>n. running_proc) (\<lambda>n. Connected)) 60
        (example_cluster (Some 4242))
        (example_world (Some [(''postmaster.pid'', example_pidfile ''12a4'' ''/tmp'' ''*'')])))
     = Inl (ValueError (Invalid_int_literal ''12a4''))"
proof -
  let ?w = "example_world (Some [(''postmaster.pid'', example_pidfile ''12a4'' ''/tmp'' ''*'')])"
  have present: "read_file ?w ''postmaster.pid'' = Some (example_pidfile ''12a4'' ''/tmp'' ''*'')"
    by code_simp
  have six: "6 \<le> length (splitlines (example_pidfile ''12a4'' ''/tmp'' ''*''))"
    by code_simp
  have first: "splitlines (example_pidfile ''12a4'' ''/tmp'' ''*'') ! 0 = ''12a4''"
    by code_simp
  have bad: "py_int (splitlines (example_pidfile ''12a4'' ''/tmp'' ''*'') ! 0) = None"
    by code_simp
  from pidfile_bad_pid_raises [OF present six bad, of "example_cluster (Some 4242)" 60]
  show ?thesis
    by (simp add: first)
qed

section \<open>The readiness wait\<close>



lemma datadir_sleep [simp]: "datadir (sleep e w) = server_activity e (clock w) (datadir w)"
  by (simp add: sleep_def)

lemma clock_sleep [simp]: "clock (sleep e w) = Suc (clock w)"
  by (simp add: sleep_def)





lemma test_connection_world:
  "test_connection e 0 c w = (Inr ''running'', c\<lparr>connection_addr := None\<rparr>, w)"
  by (simp add: test_connection_def)



section \<open>Status, destroy and the access-control file\<close>



text \<open>Taking the status changes neither the data directory nor the count of reloads.\<close>

lemma get_status_datadir:
  assumes "get_status e c w = (r, c1, w1)"
  shows "datadir w1 = datadir w"
  using assms
  by (auto simp: get_status_def Let_def listdir_def test_connection_world
           split: sum.splits option.splits if_splits)

lemma get_status_counters:
  assumes "get_status e c w = (Inr status, c1, w1)"
  shows "datadir w1 = datadir w \<and> status_runs w1 = Suc (status_runs w)
       \<and> reload_runs w1 = reload_runs w"
  using assms
  by (auto simp: get_status_def Let_def listdir_def test_connection_world
           split: sum.splits option.splits if_splits)

lemma get_status_running_iff:
  assumes "get_status e c w = (Inr status, c1, w1)" and "datadir w = Some (f # fs)"
  shows "(status = ''running'') = (returncode (run_pg_ctl_status e (status_runs w)) = 0)"
  using assms
  by (auto simp: get_status_def Let_def listdir_def test_connection_world
           split: sum.splits option.splits if_splits)

text \<open>
  Claim C5. When the status is \<^verbatim>\<open>'running'\<close>, \<^verbatim>\<open>destroy\<close> raises the ClusterError
  \<^verbatim>\<open>cannot destroy running cluster\<close> and the data directory is as it was. When the status is
  \<^verbatim>\<open>'stopped'\<close> or \<^verbatim>\<open>'not-initialized'\<close>, the data directory is gone afterwards, and \<^verbatim>\<open>destroy\<close>
  returns normally if there was a directory to remove.
\<close>

theorem destroy_by_status:
  assumes "get_status e c w = (Inr status, c1, w1)"
  shows "(status = ''running'' \<longrightarrow>
            destroy e c w = (Inl (ClusterError ''cannot destroy running cluster''), c1, w1)
            \<and> datadir w1 = datadir w)
       \<and> (status = ''stopped'' \<or> status = ''not-initialized'' \<longrightarrow>
            datadir (snd (snd (destroy e c w))) = None
            \<and> (datadir w \<noteq> None \<longrightarrow> fst (destroy e c w) = Inr ()))"
  using assms get_status_datadir [OF assms]
  by (auto simp: destroy_def and_then_def split: option.splits)

text \<open>A running cluster, and a stopped one, each with one file in the data directory.\<close>

theorem destroy_by_status_witness:
  "destroy (example_env False (\<lambda>n. running_proc) (\<lambda>n. Connected))
     (example_cluster None) (example_world (Some [(''PG_VERSION'', ''9.6'')]))
   = (Inl (ClusterError ''cannot destroy running cluster''),
      (example_cluster None)\<lparr>daemon_pid := Some 4242, connection_addr := None\<rparr>,
      (example_world (Some [(''PG_VERSION'', ''9.6'')]))\<lparr>status_runs := 1\<rparr>)
   \<and> datadir (snd (snd (destroy (example_env False (\<lambda>n. stopped_proc) (\<lambda>n. Connected))
        (example_cluster None) (example_world (Some [(''PG_VERSION'', ''9.6'')]))))) = None
   \<and> fst (destroy (example_env False (\<lambda>n. stopped_proc) (\<lambda>n. Connected))
        (example_cluster None) (example_world (Some [(''PG_VERSION'', ''9.6'')]))) = Inr ()"
proof -
  let ?w = "example_world (Some [(''PG_VERSION'', ''9.6'')])"
  let ?c = "example_cluster None"
  let ?e0 = "example_env False (\<lambda>n. running_proc) (\<lambda>n. Connected)"
  let ?e3 = "example_env False (\<lambda>n. stopped_proc) (\<lambda>n. Connected)"
  have running: "get_status ?e0 ?c ?w
     = (Inr ''running'', ?c\<lparr>daemon_pid := Some 4242, connection_addr := None\<rparr>,
        ?w\<lparr>status_runs := 1\<rparr>)"
    by code_simp
  have stopped: "get_status ?e3 ?c ?w = (Inr ''stopped'', ?c, ?w\<lparr>status_runs := 1\<rparr>)"
    by code_simp
  have dir: "datadir ?w \<noteq> None"
    by (simp add: example_world_def)
  from destroy_by_status [OF running] destroy_by_status [OF stopped] dir
  show ?thesis by simp
qed

text \<open>
  Claim C7. \<^verbatim>\<open>add_hba_entry\<close> with a connection type other than \<^verbatim>\<open>local\<close> and no address, or
  with a type outside local, host, hostssl and hostnossl, ends in an error and leaves the
  data directory, and so the access-control file, as it was. On a cluster whose status is
  not \<^verbatim>\<open>'not-initialized'\<close> the error is the ValueError of the failed check.
\<close>

theorem add_hba_entry_rejects:
  assumes "(hba_type \<noteq> ''local'' \<and> address = None)
         \<or> hba_type \<notin> set [''local'', ''host'', ''hostssl'', ''hostnossl'']"
  shows "(\<exists>err. fst (add_hba_entry e hba_type database user address auth_method auth_options c w)
             = Inl err)
       \<and> datadir (snd (snd (add_hba_entry e hba_type database user address auth_method
                               auth_options c w))) = datadir w
       \<and> (\<forall>status c1 w1. get_status e c w = (Inr status, c1, w1) \<and> status \<noteq> ''not-initialized''
            \<longrightarrow> (\<exists>v. add_hba_entry e hba_type database user address auth_method auth_options c w
                       = (Inl (ValueError v), c1, w1)))"
proof -
  obtain r c1 w1 where st: "get_status e c w = (r, c1, w1)"
    by (cases "get_status e c w") auto
  have dir: "datadir w1 = datadir w"
    using get_status_datadir [OF st] .
  show ?thesis
  proof (cases r)
    case (Inl err)
    with st dir show ?thesis
      by (simp add: add_hba_entry_def and_then_def)
  next
    case (Inr status)
    with st dir assms show ?thesis
      by (auto simp: add_hba_entry_def and_then_def)
  qed
qed

text \<open>
  A host entry without an address, and an entry of the unknown type \<^verbatim>\<open>hostgss\<close>, on a stopped
  cluster whose access-control file has three entries.
\<close>

theorem add_hba_entry_rejects_witness:
  "fst (add_hba_entry (example_env False (\<lambda>n. stopped_proc) (\<lambda>n. Connected))
      ''host'' ''all'' ''all'' None ''trust'' None
      (example_cluster None) (example_world (Some [(''pg_hba.conf'', example_hba)])))
   = Inl (ValueError (Address_required ''host''))
   \<and> datadir (snd (snd (add_hba_entry (example_env False (\<lambda>n. stopped_proc) (\<lambda>n. Connected))
      ''host'' ''all'' ''all'' None ''trust'' None
      (example_cluster None) (example_world (Some [(''pg_hba.conf'', example_hba)])))))
   = Some [(''pg_hba.conf'', example_hba)]
   \<and> datadir (snd (snd (add_hba_entry (example_env False (\<lambda>n. stopped_proc) (\<lambda>n. Connected))
      ''hostgss'' ''all'' ''all'' (Some ''10.0.0.0/8'') ''trust'' None
      (example_cluster None) (example_world (Some [(''pg_hba.conf'', example_hba)])))))
   = Some [(''pg_hba.conf'', example_hba)]"
proof -
  let ?w = "example_world (Some [(''pg_hba.conf'', example_hba)])"
  let ?c = "example_cluster None"
  let ?e3 = "example_env False (\<lambda>n. stopped_proc) (\<lambda>n. Connected)"
  have dir: "datadir ?w = Some [(''pg_hba.conf'', example_hba)]"
    by (simp add: example_world_def)
  have no_address: "(''host'' \<noteq> ''local'' \<and> (None :: string option) = None)
         \<or> ''host'' \<notin> set [''local'', ''host'', ''hostssl'', ''hostnossl'']"
    by simp
  have bad_type: "(''hostgss'' \<noteq> ''local'' \<and> Some ''10.0.0.0/8'' = None)
         \<or> ''hostgss'' \<notin> set [''local'', ''host'', ''hostssl'', ''hostnossl'']"
    by simp
  have raised: "fst (add_hba_entry ?e3 ''host'' ''all'' ''all'' None ''trust'' None ?c ?w)
      = Inl (ValueError (Address_required ''host''))"
    by code_simp
  from add_hba_entry_rejects [OF no_address, of ?e3 "''all''" "''all''" "''trust''" None ?c ?w]
    add_hba_entry_rejects [OF bad_type, of ?e3 "''all''" "''all''" "''trust''" None ?c ?w]
    dir raised
  show ?thesis by simp
qed

section \<open>The port search and the unmanaged variant\<close>

lemma drawn_port_in_range:
  assumes "low \<le> high"
  shows "low \<le> low + int (r mod nat (high - low + 1))
       \<and> low + int (r mod nat (high - low + 1)) \<le> high"
proof -
  have pos: "0 < nat (high - low + 1)" using assms by simp
  have "r mod nat (high - low + 1) < nat (high - low + 1)"
    using pos by (rule mod_less_divisor)
  then have "int (r mod nat (high - low + 1)) < high - low + 1"
    using assms by linarith
  then show ?thesis by simp
qed

lemma port_loop_all_bound:
  assumes "low \<le> high"
    and "\<forall>n port. low \<le> port \<and> port \<le> high \<longrightarrow> bind_result e n port = Addr_in_use"
  shows "port_loop e low high n w = (Inr None, w\<lparr>bind_attempts := bind_attempts w + n\<rparr>)"
proof (induction n arbitrary: w)
  case 0
  show ?case by simp
next
  case (Suc n)
  have "bind_result e (bind_attempts w)
          (low + int (random_draw e (bind_attempts w) mod nat (high - low + 1))) = Addr_in_use"
    using assms(2) drawn_port_in_range [OF assms(1)] by blast
  with assms(1) Suc.IH show ?case
    by (simp add: Let_def)
qed

text \<open>
  Claim C8. When every port of a range that is not empty is already bound, whatever the
  attempt and whatever the port drawn, \<^verbatim>\<open>find_available_port\<close> makes exactly \<^verbatim>\<open>max_tries\<close> bind
  attempts (none for a budget below 1) and returns \<^verbatim>\<open>None\<close> without raising.
\<close>

theorem find_available_port_exhausts:
  assumes "low \<le> high"
    and "\<forall>n port. low \<le> port \<and> port \<le> high \<longrightarrow> bind_result e n port = Addr_in_use"
  shows "find_available_port e (low, high) max_tries w
           = (Inr None, w\<lparr>bind_attempts := bind_attempts w + nat max_tries\<rparr>)"
  using port_loop_all_bound [OF assms]
  by (simp add: find_available_port_def)

text \<open>The range of the single port 5432, taken, searched with the default of 1000 tries.\<close>

theorem find_available_port_exhausts_witness:
  "find_available_port (example_env False (\<lambda>n. stopped_proc) (\<lambda>n. Connected))
     (5432, 5432) 1000 (example_world None)
   = (Inr None, (example_world None)\<lparr>bind_attempts := 1000\<rparr>)"
proof -
  let ?e = "example_env False (\<lambda>n. stopped_proc) (\<lambda>n. Connected)"
  have range: "(5432::int) \<le> 5432" by simp
  have bound: "\<forall>n port. 5432 \<le> port \<and> port \<le> 5432 \<longrightarrow> bind_result ?e n port = Addr_in_use"
    by (simp add: example_env_def)
  have "bind_attempts (example_world None) + nat 1000 = 1000"
    by (simp add: example_world_def)
  with find_available_port_exhausts [OF range bound, of 1000 "example_world None"]
  show ?thesis by simp
qed

text \<open>
  Claim C9. For \<^verbatim>\<open>RunningCluster\<close>: \<^verbatim>\<open>get_status\<close> always returns \<^verbatim>\<open>'running'\<close>; \<^verbatim>\<open>init\<close>, \<^verbatim>\<open>start\<close>,
  \<^verbatim>\<open>stop\<close> and \<^verbatim>\<open>destroy\<close> return and leave the world (the data directory, the runs of the
  tools, the connection attempts) as it was; \<^verbatim>\<open>reset_hba\<close> and \<^verbatim>\<open>add_hba_entry\<close> raise
  ClusterError whatever their arguments, and change nothing either; and
  \<^verbatim>\<open>get_connection_spec\<close> returns a copy of the dictionary the cluster was created with: a new
  dictionary with the same content, all others being left as they were.
\<close>

theorem running_cluster_unmanaged:
  "running_get_status rc h w = (Inr ''running'', rc, h, w)
   \<and> running_init settings rc h w = (Inr (), rc, h, w)
   \<and> running_start wait settings rc h w = (Inr (), rc, h, w)
   \<and> running_stop wait rc h w = (Inr (), rc, h, w)
   \<and> running_destroy rc h w = (Inr (), rc, h, w)
   \<and> running_reset_hba rc h w
       = (Inl (ClusterError ''cannot modify HBA records of unmanaged cluster''), rc, h, w)
   \<and> running_add_hba_entry hba_type database user address auth_method auth_options rc h w
       = (Inl (ClusterError ''cannot modify HBA records of unmanaged cluster''), rc, h, w)
   \<and> (conn_spec rc < length h \<longrightarrow>
        (case running_get_connection_spec rc h of
           (copy, h1) \<Rightarrow>
             copy \<noteq> conn_spec rc \<and> copy < length h1
             \<and> h1 ! copy = h ! conn_spec rc
             \<and> (\<forall>a < length h. h1 ! a = h ! a)))"
  by (auto simp: running_get_status_def running_init_def running_start_def running_stop_def
        running_destroy_def running_reset_hba_def running_add_hba_entry_def
        running_get_connection_spec_def nth_append)

text \<open>
  A cluster created with the host \<^verbatim>\<open>db.example\<close> and the port 5432, its dictionary at address
  0 of a store that holds nothing else.
\<close>

theorem running_cluster_unmanaged_witness:
  "running_get_connection_spec \<lparr>conn_spec = 0\<rparr> [[(''host'', ''db.example''), (''port'', ''5432'')]]
   = (1, [[(''host'', ''db.example''), (''port'', ''5432'')],
          [(''host'', ''db.example''), (''port'', ''5432'')]])
   \<and> running_destroy \<lparr>conn_spec = 0\<rparr> [[(''host'', ''db.example''), (''port'', ''5432'')]]
        (example_world (Some [(''PG_VERSION'', ''9.6'')]))
      = (Inr (), \<lparr>conn_spec = 0\<rparr>, [[(''host'', ''db.example''), (''port'', ''5432'')]],
         example_world (Some [(''PG_VERSION'', ''9.6'')]))"
  using running_cluster_unmanaged [of "\<lparr>conn_spec = 0\<rparr>"
      "[[(''host'', ''db.example''), (''port'', ''5432'')]]"
      "example_world (Some [(''PG_VERSION'', ''9.6'')])"]
  by (simp add: running_get_connection_spec_def)

section \<open>The trust helpers\<close>

lemma and_then_Inr:
  assumes "and_then r f = (Inr y, c1, w1)"
  obtains x c' w' where "r = (Inr x, c', w')" and "f x c' w' = (Inr y, c1, w1)"
  using assms
  by (auto simp: and_then_def split: prod.splits sum.splits)

lemma update_nonempty: "\<exists>f fs. AList.update k v d = f # fs"
  by (cases d) auto

lemma map_of_update_same: "map_of (AList.update k v d) k = Some v"
  by (simp add: update_conv')

lemma hba_text_read: "read_file w ''pg_hba.conf'' = Some content \<Longrightarrow> hba_text w = content"
  by (simp add: hba_text_def)

text \<open>An entry that is added goes to the end of the file; the status is taken once.\<close>

lemma add_hba_entry_success:
  assumes "add_hba_entry e hba_type database user address auth_method auth_options c w
             = (Inr (), c1, w1)"
  shows "read_file w1 ''pg_hba.conf''
           = Some (hba_text w
                   @ hba_record hba_type database user address auth_method auth_options
                   @ [CHR 0x0A])
       \<and> status_runs w1 = Suc (status_runs w) \<and> reload_runs w1 = reload_runs w
       \<and> (\<exists>f fs. datadir w1 = Some (f # fs))"
proof -
  from assms obtain status c' w' where st: "get_status e c w = (Inr status, c', w')"
    and rest: "(if status = ''not-initialized''
       then (Inl (ClusterError ''cannot modify HBA records: cluster is not initialized''), c', w')
       else if hba_type \<notin> set [''local'', ''host'', ''hostssl'', ''hostnossl'']
       then (Inl (ValueError (Invalid_hba_type hba_type)), c', w')
       else if hba_type \<noteq> ''local'' \<and> address = None
       then (Inl (ValueError (Address_required hba_type)), c', w')
       else
         (case open_hba e w' of
            Inl text \<Rightarrow> (Inl (ClusterError (''cannot modify HBA records: '' @ text)), c', w')
          | Inr d \<Rightarrow>
              let old = (case map_of d ''pg_hba.conf'' of None \<Rightarrow> [] | Some text \<Rightarrow> text);
                  line = hba_record hba_type database user address auth_method auth_options
                           @ [CHR 0x0A]
              in (Inr (), c',
                  w'\<lparr>datadir := Some (AList.update ''pg_hba.conf'' (old @ line) d)\<rparr>)))
      = (Inr (), c1, w1)"
    unfolding add_hba_entry_def by (rule and_then_Inr)
  note cnt = get_status_counters [OF st]
  from rest obtain d where d: "open_hba e w' = Inr d"
    and w1: "w1 = w'\<lparr>datadir := Some (AList.update ''pg_hba.conf''
        ((case map_of d ''pg_hba.conf'' of None \<Rightarrow> [] | Some text \<Rightarrow> text)
          @ hba_record hba_type database user address auth_method auth_options @ [CHR 0x0A]) d)\<rparr>"
    by (auto simp: Let_def split: if_splits sum.splits)
  from d have dd: "datadir w' = Some d"
    by (auto simp: open_hba_def split: option.splits if_splits)
  with cnt have "datadir w = Some d" by simp
  then have old: "hba_text w
      = (case map_of d ''pg_hba.conf'' of None \<Rightarrow> [] | Some text \<Rightarrow> text)"
    by (simp add: hba_text_def read_file_def)
  show ?thesis
    using w1 cnt old update_nonempty [of "''pg_hba.conf''" _ d]
    by (simp add: read_file_def map_of_update_same)
qed

lemma reset_hba_success:
  assumes "reset_hba e c w = (Inr (), c1, w1)"
  shows "read_file w1 ''pg_hba.conf'' = Some []
       \<and> status_runs w1 = Suc (status_runs w) \<and> reload_runs w1 = reload_runs w
       \<and> (\<exists>f fs. datadir w1 = Some (f # fs))"
proof -
  from assms obtain status c' w' where st: "get_status e c w = (Inr status, c', w')"
    and rest: "(if status = ''not-initialized''
       then (Inl (ClusterError ''cannot modify HBA records: cluster is not initialized''), c', w')
       else
         (case open_hba e w' of
            Inl text \<Rightarrow> (Inl (ClusterError (''cannot modify HBA records: '' @ text)), c', w')
          | Inr d \<Rightarrow> (Inr (), c', w'\<lparr>datadir := Some (AList.update ''pg_hba.conf'' [] d)\<rparr>)))
      = (Inr (), c1, w1)"
    unfolding reset_hba_def by (rule and_then_Inr)
  note cnt = get_status_counters [OF st]
  from rest obtain d where w1: "w1 = w'\<lparr>datadir := Some (AList.update ''pg_hba.conf'' [] d)\<rparr>"
    by (auto split: if_splits sum.splits)
  show ?thesis
    using w1 cnt update_nonempty [of "''pg_hba.conf''" "[]" d]
    by (simp add: read_file_def map_of_update_same)
qed

lemma reload_success:
  assumes "reload e c w = (Inr (), c1, w1)"
  shows "datadir w1 = datadir w \<and> reload_runs w1 = Suc (reload_runs w)"
proof -
  from assms obtain status c' w' where st: "get_status e c w = (Inr status, c', w')"
    and rest: "(if status \<noteq> ''running''
       then (Inl (ClusterError ''cannot reload: cluster is not running''), c', w')
       else
         let process = run_pg_ctl_reload e (reload_runs w');
             w1 = w'\<lparr>reload_runs := Suc (reload_runs w')\<rparr>
         in if returncode process \<noteq> 0
            then (Inl (ClusterError
                    (''pg_ctl stop exited with status '' @ format_d (returncode process)
                       @ '': '' @ stderr process)),
                  c', w1)
            else (Inr (), c', w1)) = (Inr (), c1, w1)"
    unfolding reload_def by (rule and_then_Inr)
  note cnt = get_status_counters [OF st]
  from rest have "w1 = w'\<lparr>reload_runs := Suc (reload_runs w')\<rparr>"
    by (auto simp: Let_def split: if_splits)
  with cnt show ?thesis by simp
qed

text \<open>
  The end of both helpers: the status is taken, and the configuration is reloaded exactly
  when that status is \<^verbatim>\<open>'running'\<close>, which on a data directory with files in it is when the
  run of \<^verbatim>\<open>pg_ctl status\<close> exits with code 0.
\<close>

lemma reload_if_running_success:
  assumes "reload_if_running e c w = (Inr (), c1, w1)" and "datadir w = Some (f # fs)"
  shows "datadir w1 = datadir w
       \<and> reload_runs w1 = reload_runs w
            + (if returncode (run_pg_ctl_status e (status_runs w)) = 0 then 1 else 0)
       \<and> (\<exists>status c' w'. get_status e c w = (Inr status, c', w')
             \<and> (status = ''running'') = (returncode (run_pg_ctl_status e (status_runs w)) = 0))"
proof -
  from assms(1) obtain status c' w' where st: "get_status e c w = (Inr status, c', w')"
    and rest: "(if status = ''running'' then reload e c' w' else (Inr (), c', w'))
                 = (Inr (), c1, w1)"
    unfolding reload_if_running_def by (rule and_then_Inr)
  note cnt = get_status_counters [OF st]
  note iff = get_status_running_iff [OF st assms(2)]
  show ?thesis
  proof (cases "status = ''running''")
    case True
    with rest have "reload e c' w' = (Inr (), c1, w1)" by simp
    from reload_success [OF this] cnt iff True st show ?thesis by simp
  next
    case False
    with rest have "w1 = w'" by simp
    with cnt iff False st show ?thesis by simp
  qed
qed

lemma replication_success:
  assumes "trust_local_replication_by e user c w = (Inr (), c1, w1)"
  shows "read_file w1 ''pg_hba.conf''
           = Some (hba_text w @ spec_trust_entries (windows e) ''replication'' user)
       \<and> reload_runs w1 = reload_runs w
            + (if returncode (run_pg_ctl_status e
                   (status_runs w + (if windows e then 2 else 3))) = 0 then 1 else 0)"
proof -
  from assms obtain u1 ca wa where
    s1: "(if \<not> windows e
          then add_hba_entry e ''local'' ''replication'' user None ''trust'' None c w
          else (Inr (), c, w)) = (Inr u1, ca, wa)"
    and r1: "and_then (add_hba_entry e ''host'' ''replication'' user (Some ''127.0.0.1/32'')
                 ''trust'' None ca wa) (\<lambda>_ c w.
             and_then (add_hba_entry e ''host'' ''replication'' user (Some ''::1/128'') ''trust''
                 None c w) (\<lambda>_ c w. reload_if_running e c w)) = (Inr (), c1, w1)"
    unfolding trust_local_replication_by_def by (rule and_then_Inr)
  from r1 obtain u2 cb wb where
    s2: "add_hba_entry e ''host'' ''replication'' user (Some ''127.0.0.1/32'') ''trust'' None ca wa
           = (Inr u2, cb, wb)"
    and r2: "and_then (add_hba_entry e ''host'' ''replication'' user (Some ''::1/128'') ''trust''
                 None cb wb) (\<lambda>_ c w. reload_if_running e c w) = (Inr (), c1, w1)"
    by (rule and_then_Inr)
  from r2 obtain u3 cc wc where
    s3: "add_hba_entry e ''host'' ''replication'' user (Some ''::1/128'') ''trust'' None cb wb
           = (Inr u3, cc, wc)"
    and s4: "reload_if_running e cc wc = (Inr (), c1, w1)"
    by (rule and_then_Inr)
  have a: "hba_text wa = hba_text w
             @ (if windows e then [] else ''local replication '' @ user @ '' trust'' @ [CHR 0x0A])
         \<and> status_runs wa = status_runs w + (if windows e then 0 else 1)
         \<and> reload_runs wa = reload_runs w"
  proof (cases "windows e")
    case True
    with s1 show ?thesis by simp
  next
    case False
    with s1 have "add_hba_entry e ''local'' ''replication'' user None ''trust'' None c w
                    = (Inr (), ca, wa)" by simp
    from add_hba_entry_success [OF this] False show ?thesis
      by (simp add: hba_text_read hba_record_def)
  qed
  from add_hba_entry_success [of e _ _ _ _ _ _ ca wa cb wb] s2
  have b: "hba_text wb = hba_text wa @ ''host replication '' @ user @ '' 127.0.0.1/32 trust''
             @ [CHR 0x0A]
         \<and> status_runs wb = Suc (status_runs wa) \<and> reload_runs wb = reload_runs wa"
    by (simp add: hba_text_read hba_record_def)
  from add_hba_entry_success [of e _ _ _ _ _ _ cb wb cc wc] s3
  have c: "read_file wc ''pg_hba.conf''
             = Some (hba_text wb @ ''host replication '' @ user @ '' ::1/128 trust'' @ [CHR 0x0A])
         \<and> status_runs wc = Suc (status_runs wb) \<and> reload_runs wc = reload_runs wb
         \<and> (\<exists>f fs. datadir wc = Some (f # fs))"
    by (simp add: hba_record_def)
  then obtain f fs where dir: "datadir wc = Some (f # fs)" by blast
  from reload_if_running_success [OF s4 dir]
  have d: "datadir w1 = datadir wc
         \<and> reload_runs w1 = reload_runs wc
              + (if returncode (run_pg_ctl_status e (status_runs wc)) = 0 then 1 else 0)"
    by blast
  have idx: "status_runs wc = status_runs w + (if windows e then 2 else 3)"
    using a b c by simp
  have content: "read_file w1 ''pg_hba.conf''
           = Some (hba_text w @ spec_trust_entries (windows e) ''replication'' user)"
    using a b c d by (simp add: read_file_def spec_trust_entries_def)
  from a b c d idx content show ?thesis by simp
qed

lemma connections_success:
  assumes "trust_local_connections e c w = (Inr (), c1, w1)"
  shows "read_file w1 ''pg_hba.conf'' = Some (spec_trust_entries (windows e) ''all'' ''all'')
       \<and> reload_runs w1 = reload_runs w
            + (if returncode (run_pg_ctl_status e
                   (status_runs w + (if windows e then 3 else 4))) = 0 then 1 else 0)"
proof -
  from assms obtain u0 cr wr where
    s0: "reset_hba e c w = (Inr u0, cr, wr)"
    and r0: "and_then (if \<not> windows e
               then add_hba_entry e ''local'' ''all'' ''all'' None ''trust'' None cr wr
               else (Inr (), cr, wr)) (\<lambda>_ c w.
     and_then (add_hba_entry e ''host'' ''all'' ''all'' (Some ''127.0.0.1/32'') ''trust'' None c w)
       (\<lambda>_ c w.
     and_then (add_hba_entry e ''host'' ''all'' ''all'' (Some ''::1/128'') ''trust'' None c w)
       (\<lambda>_ c w. reload_if_running e c w))) = (Inr (), c1, w1)"
    unfolding trust_local_connections_def by (rule and_then_Inr)
  from r0 obtain u1 ca wa where
    s1: "(if \<not> windows e
          then add_hba_entry e ''local'' ''all'' ''all'' None ''trust'' None cr wr
          else (Inr (), cr, wr)) = (Inr u1, ca, wa)"
    and r1: "and_then (add_hba_entry e ''host'' ''all'' ''all'' (Some ''127.0.0.1/32'')
                 ''trust'' None ca wa) (\<lambda>_ c w.
             and_then (add_hba_entry e ''host'' ''all'' ''all'' (Some ''::1/128'') ''trust''
                 None c w) (\<lambda>_ c w. reload_if_running e c w)) = (Inr (), c1, w1)"
    by (rule and_then_Inr)
  from r1 obtain u2 cb wb where
    s2: "add_hba_entry e ''host'' ''all'' ''all'' (Some ''127.0.0.1/32'') ''trust'' None ca wa
           = (Inr u2, cb, wb)"
    and r2: "and_then (add_hba_entry e ''host'' ''all'' ''all'' (Some ''::1/128'') ''trust''
                 None cb wb) (\<lambda>_ c w. reload_if_running e c w) = (Inr (), c1, w1)"
    by (rule and_then_Inr)
  from r2 obtain u3 cc wc where
    s3: "add_hba_entry e ''host'' ''all'' ''all'' (Some ''::1/128'') ''trust'' None cb wb
           = (Inr u3, cc, wc)"
    and s4: "reload_if_running e cc wc = (Inr (), c1, w1)"
    by (rule and_then_Inr)
  from reset_hba_success [of e c w cr wr] s0
  have z: "hba_text wr = [] \<and> status_runs wr = Suc (status_runs w)
         \<and> reload_runs wr = reload_runs w"
    by (simp add: hba_text_read)
  have a: "hba_text wa = hba_text wr
             @ (if windows e then [] else ''local all all trust'' @ [CHR 0x0A])
         \<and> status_runs wa = status_runs wr + (if windows e then 0 else 1)
         \<and> reload_runs wa = reload_runs wr"
  proof (cases "windows e")
    case True
    with s1 show ?thesis by simp
  next
    case False
    with s1 have "add_hba_entry e ''local'' ''all'' ''all'' None ''trust'' None cr wr
                    = (Inr (), ca, wa)" by simp
    from add_hba_entry_success [OF this] False show ?thesis
      by (simp add: hba_text_read hba_record_def)
  qed
  from add_hba_entry_success [of e _ _ _ _ _ _ ca wa cb wb] s2
  have b: "hba_text wb = hba_text wa @ ''host all all 127.0.0.1/32 trust'' @ [CHR 0x0A]
         \<and> status_runs wb = Suc (status_runs wa) \<and> reload_runs wb = reload_runs wa"
    by (simp add: hba_text_read hba_record_def)
  from add_hba_entry_success [of e _ _ _ _ _ _ cb wb cc wc] s3
  have c: "read_file wc ''pg_hba.conf''
             = Some (hba_text wb @ ''host all all ::1/128 trust'' @ [CHR 0x0A])
         \<and> status_runs wc = Suc (status_runs wb) \<and> reload_runs wc = reload_runs wb
         \<and> (\<exists>f fs. datadir wc = Some (f # fs))"
    by (simp add: hba_record_def)
  then obtain f fs where dir: "datadir wc = Some (f # fs)" by blast
  from reload_if_running_success [OF s4 dir]
  have d: "datadir w1 = datadir wc
         \<and> reload_runs w1 = reload_runs wc
              + (if returncode (run_pg_ctl_status e (status_runs wc)) = 0 then 1 else 0)"
    by blast
  have idx: "status_runs wc = status_runs w + (if windows e then 3 else 4)"
    using z a b c by simp
  have content: "read_file w1 ''pg_hba.conf''
      = Some (spec_trust_entries (windows e) ''all'' ''all'')"
    using z a b c d by (simp add: read_file_def spec_trust_entries_def)
  from z a b c d idx content show ?thesis by simp
qed

text \<open>
  Claim C2, as amended. \<^verbatim>\<open>trust_local_replication_by\<close> does not reset the access-control
  file: when it returns, the file holds what it held before, followed by the standard trust
  entries for the database \<^verbatim>\<open>replication\<close> and the given user (a local entry unless on Windows,
  then the host entries for 127.0.0.1/32 and ::1/128), and the server configuration has been
  reloaded once if the status taken after the last entry was \<^verbatim>\<open>'running'\<close>, and not otherwise.
  \<^verbatim>\<open>trust_local_connections\<close> does reset the file first: when it returns, the file holds the
  standard trust entries for all databases and users and nothing else, with the same reload.
  The status after the last entry is taken by the third run of \<^verbatim>\<open>pg_ctl status\<close> after those
  made before the call (the second on Windows, one more for \<^verbatim>\<open>trust_local_connections\<close>), and
  it is \<^verbatim>\<open>'running'\<close> exactly when that run exits with code 0.
\<close>

theorem trust_helpers_append:
  "(trust_local_replication_by e user c w = (Inr (), c1, w1) \<longrightarrow>
      read_file w1 ''pg_hba.conf''
        = Some (hba_text w @ spec_trust_entries (windows e) ''replication'' user)
      \<and> reload_runs w1 = reload_runs w
           + (if returncode (run_pg_ctl_status e
                  (status_runs w + (if windows e then 2 else 3))) = 0 then 1 else 0))
   \<and> (trust_local_connections e c w = (Inr (), c1, w1) \<longrightarrow>
      read_file w1 ''pg_hba.conf'' = Some (spec_trust_entries (windows e) ''all'' ''all'')
      \<and> reload_runs w1 = reload_runs w
           + (if returncode (run_pg_ctl_status e
                  (status_runs w + (if windows e then 3 else 4))) = 0 then 1 else 0))"
  using replication_success connections_success by blast

text \<open>
  A running cluster whose access-control file has three entries: the replication entries for
  the user \<^verbatim>\<open>repl\<close> come after them, and the configuration is reloaded once.
\<close>

theorem trust_helpers_append_witness:
  "read_file (snd (snd (trust_local_replication_by
        (example_env False (\<lambda>n. running_proc) (\<lambda>n. Connected)) ''repl''
        (example_cluster None) (example_world (Some [(''pg_hba.conf'', example_hba)])))))
     ''pg_hba.conf''
   = Some (example_hba
           @ ''local replication repl trust'' @ [CHR 0x0A]
           @ ''host replication repl 127.0.0.1/32 trust'' @ [CHR 0x0A]
           @ ''host replication repl ::1/128 trust'' @ [CHR 0x0A])
   \<and> reload_runs (snd (snd (trust_local_replication_by
        (example_env False (\<lambda>n. running_proc) (\<lambda>n. Connected)) ''repl''
        (example_cluster None) (example_world (Some [(''pg_hba.conf'', example_hba)])))))
   = 1"
proof -
  let ?e = "example_env False (\<lambda>n. running_proc) (\<lambda>n. Connected)"
  let ?c = "example_cluster None"
  let ?w = "example_world (Some [(''pg_hba.conf'', example_hba)])"
  have ok: "fst (trust_local_replication_by ?e ''repl'' ?c ?w) = Inr ()"
    by code_simp
  then obtain c1 w1 where run: "trust_local_replication_by ?e ''repl'' ?c ?w = (Inr (), c1, w1)"
    by (cases "trust_local_replication_by ?e ''repl'' ?c ?w") auto
  have old: "hba_text ?w = example_hba"
    by code_simp
  have entries: "spec_trust_entries (windows ?e) ''replication'' ''repl''
      = ''local replication repl trust'' @ [CHR 0x0A]
        @ ''host replication repl 127.0.0.1/32 trust'' @ [CHR 0x0A]
        @ ''host replication repl ::1/128 trust'' @ [CHR 0x0A]"
    by code_simp
  have before: "reload_runs ?w = 0"
    by (simp add: example_world_def)
  have code: "returncode (run_pg_ctl_status ?e n) = 0" for n
    by (simp add: example_env_def running_proc_def example_proc_def)
  from trust_helpers_append [of ?e "''repl''" ?c ?w c1 w1] run
  have "read_file w1 ''pg_hba.conf''
          = Some (hba_text ?w @ spec_trust_entries (windows ?e) ''replication'' ''repl'')
      \<and> reload_runs w1 = reload_runs ?w
           + (if returncode (run_pg_ctl_status ?e
                  (status_runs ?w + (if windows ?e then 2 else 3))) = 0 then 1 else 0)"
    by blast
  then have "read_file w1 ''pg_hba.conf''
          = Some (example_hba
           @ ''local replication repl trust'' @ [CHR 0x0A]
           @ ''host replication repl 127.0.0.1/32 trust'' @ [CHR 0x0A]
           @ ''host replication repl ::1/128 trust'' @ [CHR 0x0A])
      \<and> reload_runs w1 = 1"
    by (simp only: old entries before code) simp
  with run show ?thesis by simp
qed

text \<open>
  The claim as it was stated fails wherever the access-control file is not empty. Here a
  stopped cluster has the file that \<^verbatim>\<open>trust_local_connections\<close> leaves, with its three
  entries; after \<^verbatim>\<open>trust_local_replication_by\<close> these are still the first three lines of the
  file, where a reset would have left the three replication entries alone.
\<close>

theorem replication_keeps_file_counterexample:
  "read_file (example_world (Some [(''pg_hba.conf'', example_hba)])) ''pg_hba.conf''
     = Some (''local all all trust'' @ [CHR 0x0A]
             @ ''host all all 127.0.0.1/32 trust'' @ [CHR 0x0A]
             @ ''host all all ::1/128 trust'' @ [CHR 0x0A])
   \<and> fst (trust_local_replication_by
        (example_env False (\<lambda>n. stopped_proc) (\<lambda>n. Connected))
        ''repl'' (example_cluster None) (example_world (Some [(''pg_hba.conf'', example_hba)])))
     = Inr ()
   \<and> read_file (snd (snd (trust_local_replication_by
        (example_env False (\<lambda>n. stopped_proc) (\<lambda>n. Connected))
        ''repl'' (example_cluster None) (example_world (Some [(''pg_hba.conf'', example_hba)])))))
        ''pg_hba.conf''
     = Some (''local all all trust'' @ [CHR 0x0A]
             @ ''host all all 127.0.0.1/32 trust'' @ [CHR 0x0A]
             @ ''host all all ::1/128 trust'' @ [CHR 0x0A]
             @ ''local replication repl trust'' @ [CHR 0x0A]
             @ ''host replication repl 127.0.0.1/32 trust'' @ [CHR 0x0A]
             @ ''host replication repl ::1/128 trust'' @ [CHR 0x0A])"
  by code_simp

end
